theory Spec2Isabelle
  imports Main
begin

section \<open>The Firecrawl command-line wrapper \<^verbatim>\<open>fc.py\<close>\<close>

text \<open>
  The script reads one environment variable, parses its command line with
  \<^verbatim>\<open>argparse\<close>, makes one call to the Firecrawl client and turns the response into
  text on standard output or into files. The model makes every effect explicit:
  a \<open>world\<close> record carries both output streams, the files and directories the run
  touches and the log of network calls, and every operation that can raise returns
  \<open>error + 'a\<close> together with the world as it is at that moment.

  Code that is not part of the script is a parameter, collected in the record \<open>ext\<close>:
  the three methods of the Firecrawl client, \<^verbatim>\<open>urllib.request.urlretrieve\<close>,
  \<^verbatim>\<open>base64.b64decode\<close>, \<^verbatim>\<open>json.load\<close>, \<^verbatim>\<open>json.dumps\<close> and the parser that
  \<^verbatim>\<open>argparse\<close> builds from the declarations of \<^verbatim>\<open>main\<close>. Every theorem holds for
  every choice of these parameters.

  Strings are \<open>string\<close>, one \<open>char\<close> for each character that Python's \<^verbatim>\<open>len\<close> and
  slicing count; a file is its content as the script reads or writes it. The type
  variable \<open>'j\<close> stands for the Python values that \<^verbatim>\<open>json.load\<close> returns.

  The file system is a map from path texts to contents and a set of directories;
  paths are compared as texts, as the script hands them to the operating system.
  Reading a path that the map does not hold raises \<^verbatim>\<open>FileNotFoundError\<close>. Opening a
  path for writing and creating a directory fail as the operating system makes them
  fail when the path, its parent or one of its ancestors is of the wrong kind or
  missing, and may fail for any other reason (permissions, a full disk) that the
  parameters \<open>open_error\<close>, \<open>write_error\<close> and \<open>mkdir_error\<close> stand for. The script
  handles none of these errors: each ends the run, with the files written before it
  left in place.
\<close>

subsection \<open>Python values, errors and the world\<close>

datatype error =
    SystemExit int
  | AttributeError
  | IndexError
  | FileNotFoundError
  | FileExistsError
  | IsADirectoryError
  | NotADirectoryError
  | Failure string

text \<open>
  \<open>Failure\<close> is any exception raised inside a parameter (a remote error, a
  \<^verbatim>\<open>JSONDecodeError\<close>, a \<^verbatim>\<open>binascii.Error\<close>, a \<^verbatim>\<open>PermissionError\<close>); the script
  catches none of them.
\<close>

datatype 'j pyval =
    PNone
  | PBool bool
  | PInt int
  | PStr string
  | PList "'j pyval list"
  | PDict "(string \<times> 'j pyval) list"
  | PJson 'j

text \<open>
  A network call as the script writes it: the client method with its positional and
  keyword arguments, or the fetch of a remote resource into a local path.
\<close>

datatype 'j net_call =
    ClientCall string "'j pyval list" "(string \<times> 'j pyval) list"
  | UrlRetrieve string string

record 'j world =
  stdout :: string
  stderr :: string
  files :: "string \<rightharpoonup> string"
  dirs :: "string set"
  calls :: "'j net_call list"

subsection \<open>Responses of the Firecrawl client\<close>

record doc_metadata =
  title :: "string option"

record 'j document =
  markdown :: "string option"
  screenshot :: "string option"
  json :: "'j option"
  metadata :: "doc_metadata option"

record web_result =
  r_title :: "string option"
  r_url :: "string option"
  r_description :: "string option"

record search_data =
  web :: "web_result list option"

record 'j crawl_job =
  data :: "'j document list"

subsection \<open>The command line after parsing\<close>

text \<open>
  The namespace \<^verbatim>\<open>args\<close>: the subparsers are required, so \<^verbatim>\<open>args.command\<close> is one of
  the five names, and each subcommand has the attributes its parser declares.
  \<^verbatim>\<open>parse_args\<close> either returns a namespace or prints (help on standard output, a
  usage error on the error stream) and exits.
\<close>

datatype args =
    Markdown string bool
  | Screenshot string "string option"
  | Extract string string "string option"
  | Search string int
  | Crawl string int "string option"

datatype parse_result =
    Parsed args
  | ParseExit int string string

subsection \<open>Code outside the script\<close>

record 'j ext =
  scrape :: "'j pyval list \<Rightarrow> (string \<times> 'j pyval) list \<Rightarrow> error + 'j document"
  search :: "'j pyval list \<Rightarrow> (string \<times> 'j pyval) list \<Rightarrow> error + search_data"
  crawl :: "'j pyval list \<Rightarrow> (string \<times> 'j pyval) list \<Rightarrow> error + 'j crawl_job"
  urlretrieve :: "string \<Rightarrow> error + string \<times> error option"
  b64decode :: "string \<Rightarrow> error + string"
  json_load :: "string \<Rightarrow> error + 'j"
  json_dumps :: "'j option \<Rightarrow> error + string"
  parse_args :: "string list \<Rightarrow> parse_result"
  open_error :: "string \<Rightarrow> error option"
  write_error :: "string \<Rightarrow> string \<Rightarrow> (error \<times> string) option"
  mkdir_error :: "string \<Rightarrow> (error \<times> string list) option"

text \<open>
  \<open>urlretrieve\<close> is what fetching a locator yields: an error when the locator cannot
  be opened, else the bytes received, with the error that broke the transfer if one
  did. \<open>open_error\<close> and \<open>mkdir_error\<close> are the refusals of the operating system that
  the state of the model does not explain; \<open>write_error\<close> also names the part of the
  content that reached the file, \<open>mkdir_error\<close> the directories made before the
  refusal.
\<close>

subsection \<open>Python's built-in operations\<close>

definition nl :: char where
  "nl = CHR 0x0A"

text \<open>\<^verbatim>\<open>print(s)\<close> and \<^verbatim>\<open>print(s, file=sys.stderr)\<close>.\<close>

definition print :: "string \<Rightarrow> 'j world \<Rightarrow> 'j world" where
  "print s w = w\<lparr>stdout := stdout w @ s @ [nl]\<rparr>"

definition print_err :: "string \<Rightarrow> 'j world \<Rightarrow> 'j world" where
  "print_err s w = w\<lparr>stderr := stderr w @ s @ [nl]\<rparr>"

text \<open>Truth value of an optional string: \<^verbatim>\<open>None\<close> and \<^verbatim>\<open>""\<close> are false.\<close>

fun truthy :: "string option \<Rightarrow> bool" where
  "truthy None = False"
| "truthy (Some s) = (s \<noteq> [])"

text \<open>\<^verbatim>\<open>x or d\<close> for an optional string \<open>x\<close>.\<close>

definition or_else :: "string option \<Rightarrow> string \<Rightarrow> string" where
  "or_else x d = (case x of None \<Rightarrow> d | Some s \<Rightarrow> if s \<noteq> [] then s else d)"

text \<open>An optional string inside an f-string or as the argument of \<^verbatim>\<open>print\<close>.\<close>

fun py_str :: "string option \<Rightarrow> string" where
  "py_str None = ''None''"
| "py_str (Some s) = s"

definition startswith :: "string \<Rightarrow> string \<Rightarrow> bool" where
  "startswith s p = (take (length p) s = p)"

text \<open>\<^verbatim>\<open>s.split(sep, 1)\<close> for a separator of one character.\<close>

fun split_1 :: "char \<Rightarrow> string \<Rightarrow> string list" where
  "split_1 sep [] = [[]]"
| "split_1 sep (c # cs) =
     (if c = sep then [[], cs]
      else (case split_1 sep cs of
              [] \<Rightarrow> [[c]]
            | h # t \<Rightarrow> (c # h) # t))"

text \<open>\<^verbatim>\<open>xs[1]\<close>.\<close>

fun index_1 :: "'a list \<Rightarrow> error + 'a" where
  "index_1 (x # y # ys) = Inr y"
| "index_1 xs = Inl IndexError"

text \<open>A natural number in decimal, and \<^verbatim>\<open>{i:03d}\<close>.\<close>

fun str_nat :: "nat \<Rightarrow> string" where
  "str_nat n =
     (if n < 10 then [char_of (48 + n)]
      else str_nat (n div 10) @ [char_of (48 + n mod 10)])"

definition format_03d :: "nat \<Rightarrow> string" where
  "format_03d i = replicate (3 - length (str_nat i)) CHR ''0'' @ str_nat i"

declare str_nat.simps [simp del]

subsection \<open>The file system\<close>

text \<open>
  The text before the last \<^verbatim>\<open>/\<close> of a path, empty when the path has none or only a
  leading one: a path with no directory part lies in the current directory or in the
  root, which always exist.
\<close>

definition dirname :: "string \<Rightarrow> string" where
  "dirname p =
     (if CHR ''/'' \<in> set p then rev (tl (dropWhile (\<lambda>c. c \<noteq> CHR ''/'') (rev p))) else [])"

text \<open>
  The proper ancestors of a path, outermost first: \<^verbatim>\<open>a\<close> and \<^verbatim>\<open>a/b\<close> for \<^verbatim>\<open>a/b/c\<close>.
  The first argument of \<open>parents_from\<close> is the part of the path already read.
\<close>

fun parents_from :: "string \<Rightarrow> string \<Rightarrow> string list" where
  "parents_from acc [] = []"
| "parents_from acc (c # cs) =
     (if c = CHR ''/'' \<and> acc \<noteq> [] \<and> last acc \<noteq> CHR ''/'' then [acc] else [])
     @ parents_from (acc @ [c]) cs"

definition parents :: "string \<Rightarrow> string list" where
  "parents d = parents_from [] d"

text \<open>
  Why \<^verbatim>\<open>open(p, "w")\<close> or \<^verbatim>\<open>open(p, "wb")\<close> fails, if it does: the path is empty,
  it names a directory, its parent is a regular file, its parent does not exist, or
  the operating system refuses for a reason of its own.
\<close>

definition open_failure :: "'j ext \<Rightarrow> 'j world \<Rightarrow> string \<Rightarrow> error option" where
  "open_failure ext w p =
     (if p = [] then Some FileNotFoundError
      else if last p = CHR ''/'' \<or> p \<in> dirs w then Some IsADirectoryError
      else if files w (dirname p) \<noteq> None then Some NotADirectoryError
      else if dirname p \<noteq> [] \<and> dirname p \<notin> dirs w then Some FileNotFoundError
      else open_error ext p)"

text \<open>Opening for writing creates the file or empties it.\<close>

definition open_w :: "'j ext \<Rightarrow> string \<Rightarrow> 'j world \<Rightarrow> (error + unit) \<times> 'j world" where
  "open_w ext p w =
     (case open_failure ext w p of
        Some e \<Rightarrow> (Inl e, w)
      | None \<Rightarrow> (Inr (), w\<lparr>files := (files w)(p \<mapsto> [])\<rparr>))"

text \<open>
  Writing to the open file and closing it: the file holds the content, or, when the
  operating system gives up, the part that reached it.
\<close>

definition write_w :: "'j ext \<Rightarrow> string \<Rightarrow> string \<Rightarrow> 'j world \<Rightarrow> (error + unit) \<times> 'j world" where
  "write_w ext p content w =
     (case write_error ext p content of
        Some (e, part) \<Rightarrow> (Inl e, w\<lparr>files := (files w)(p \<mapsto> part)\<rparr>)
      | None \<Rightarrow> (Inr (), w\<lparr>files := (files w)(p \<mapsto> content)\<rparr>))"

text \<open>
  \<^verbatim>\<open>Path(d).mkdir(parents=True, exist_ok=True)\<close>: afterwards the directory and all its
  ancestors exist, and it is no error that any of them existed before. It is an error
  that the path is a regular file (\<^verbatim>\<open>FileExistsError\<close>) or that an ancestor is one
  (\<^verbatim>\<open>NotADirectoryError\<close>); when the operating system refuses, the directories made
  before it did remain.
\<close>

definition mkdir_parents_exist_ok ::
  "'j ext \<Rightarrow> string \<Rightarrow> 'j world \<Rightarrow> (error + unit) \<times> 'j world" where
  "mkdir_parents_exist_ok ext d w =
     (if files w d \<noteq> None then (Inl FileExistsError, w)
      else if \<exists>a \<in> set (parents d). files w a \<noteq> None then (Inl NotADirectoryError, w)
      else (case mkdir_error ext d of
              Some (e, made) \<Rightarrow> (Inl e, w\<lparr>dirs := dirs w \<union> set made\<rparr>)
            | None \<Rightarrow> (Inr (), w\<lparr>dirs := dirs w \<union> set (parents d) \<union> {d}\<rparr>)))"

subsection \<open>The five operations\<close>

text \<open>
  Each operation builds its client (\<^verbatim>\<open>Firecrawl()\<close>), makes one call and projects a
  field out of the response. The call is logged before its outcome is known; an error
  of the client leaves the function at once. The arguments of a call are written as
  the source writes them, so \<^verbatim>\<open>only_main if only_main else None\<close> (line 20) is
  \<open>PBool only_main\<close> or \<open>PNone\<close>.
\<close>

definition scrape_markdown ::
  "'j ext \<Rightarrow> string \<Rightarrow> bool \<Rightarrow> 'j world \<Rightarrow> (error + string option) \<times> 'j world" where
  "scrape_markdown ext url only_main w =
     (let pos = [PStr url];
          kw = [(''formats'', PList [PStr ''markdown'']),
                (''only_main_content'', if only_main then PBool only_main else PNone)];
          w1 = w\<lparr>calls := calls w @ [ClientCall ''scrape'' pos kw]\<rparr>
      in case scrape ext pos kw of
           Inl e \<Rightarrow> (Inl e, w1)
         | Inr result \<Rightarrow> (Inr (markdown result), w1))"

text \<open>
  \<^verbatim>\<open>take_screenshot\<close>. A missing screenshot (\<^verbatim>\<open>None\<close>) has no \<^verbatim>\<open>startswith\<close>.
  \<^verbatim>\<open>urlretrieve(screenshot_data, output_path)\<close> opens the locator, then the file, and
  copies; a transfer that breaks leaves what it received in the file.
  \<^verbatim>\<open>open(output_path, "wb")\<close> at line 44 creates or empties the file before the payload
  is decoded at line 45.
\<close>

definition take_screenshot ::
  "'j ext \<Rightarrow> string \<Rightarrow> string option \<Rightarrow> 'j world \<Rightarrow> (error + string) \<times> 'j world" where
  "take_screenshot ext url output_path w =
     (let pos = [PStr url];
          kw = [(''formats'', PList [PStr ''screenshot''])];
          w1 = w\<lparr>calls := calls w @ [ClientCall ''scrape'' pos kw]\<rparr>
      in case scrape ext pos kw of
           Inl e \<Rightarrow> (Inl e, w1)
         | Inr result \<Rightarrow>
            (case screenshot result of
               None \<Rightarrow> (Inl AttributeError, w1)
             | Some screenshot_data \<Rightarrow>
                if startswith screenshot_data ''http://'' \<or> startswith screenshot_data ''https://''
                then
                  (if truthy output_path then
                     (let w2 = w1\<lparr>calls := calls w1 @ [UrlRetrieve screenshot_data (the output_path)]\<rparr>
                      in case urlretrieve ext screenshot_data of
                           Inl e \<Rightarrow> (Inl e, w2)
                         | Inr (bytes, broke) \<Rightarrow>
                            (case open_w ext (the output_path) w2 of
                               (Inl e, w3) \<Rightarrow> (Inl e, w3)
                             | (Inr ok, w3) \<Rightarrow>
                                (case write_w ext (the output_path) bytes w3 of
                                   (Inl e, w4) \<Rightarrow> (Inl e, w4)
                                 | (Inr ok, w4) \<Rightarrow>
                                    (case broke of
                                       Some e \<Rightarrow> (Inl e, w4)
                                     | None \<Rightarrow>
                                        (Inr (''Screenshot saved to '' @ the output_path), w4)))))
                   else (Inr (''[Screenshot URL: '' @ screenshot_data @ '']''), w1))
                else
                  (case (if startswith screenshot_data ''data:image''
                         then index_1 (split_1 CHR '','' screenshot_data)
                         else Inr screenshot_data) of
                     Inl e \<Rightarrow> (Inl e, w1)
                   | Inr payload \<Rightarrow>
                      if truthy output_path then
                        (case open_w ext (the output_path) w1 of
                           (Inl e, w2) \<Rightarrow> (Inl e, w2)
                         | (Inr ok, w2) \<Rightarrow>
                            (case b64decode ext payload of
                               Inl e \<Rightarrow> (Inl e, w2)
                             | Inr bytes \<Rightarrow>
                                (case write_w ext (the output_path) bytes w2 of
                                   (Inl e, w3) \<Rightarrow> (Inl e, w3)
                                 | (Inr ok, w3) \<Rightarrow>
                                    (Inr (''Screenshot saved to '' @ the output_path), w3))))
                      else
                        (Inr (''[Screenshot: '' @ str_nat (length payload) @ '' bytes base64]''),
                         w1))))"

definition extract_data ::
  "'j ext \<Rightarrow> string \<Rightarrow> 'j \<Rightarrow> string option \<Rightarrow> 'j world \<Rightarrow> (error + 'j option) \<times> 'j world" where
  "extract_data ext url schema prompt w =
     (let format_spec = [(''type'', PStr ''json''), (''schema'', PJson schema)]
                        @ (if truthy prompt then [(''prompt'', PStr (the prompt))] else []);
          pos = [PStr url];
          kw = [(''formats'', PList [PDict format_spec])];
          w1 = w\<lparr>calls := calls w @ [ClientCall ''scrape'' pos kw]\<rparr>
      in case scrape ext pos kw of
           Inl e \<Rightarrow> (Inl e, w1)
         | Inr result \<Rightarrow> (Inr (json result), w1))"

text \<open>\<^verbatim>\<open>results.web or []\<close>: a missing list and an empty list both give the empty list.\<close>

definition search_web ::
  "'j ext \<Rightarrow> string \<Rightarrow> int \<Rightarrow> 'j world \<Rightarrow> (error + web_result list) \<times> 'j world" where
  "search_web ext query limit w =
     (let pos = [PStr query];
          kw = [(''limit'', PInt limit)];
          w1 = w\<lparr>calls := calls w @ [ClientCall ''search'' pos kw]\<rparr>
      in case search ext pos kw of
           Inl e \<Rightarrow> (Inl e, w1)
         | Inr results \<Rightarrow>
             (Inr (case web results of None \<Rightarrow> [] | Some rs \<Rightarrow> if rs \<noteq> [] then rs else []), w1))"

definition crawl_docs ::
  "'j ext \<Rightarrow> string \<Rightarrow> int \<Rightarrow> 'j world \<Rightarrow> (error + 'j document list) \<times> 'j world" where
  "crawl_docs ext url limit w =
     (let pos = [PStr url];
          kw = [(''limit'', PInt limit),
                (''scrape_options'',
                 PDict [(''formats'', PList [PStr ''markdown'']), (''onlyMainContent'', PBool True)])];
          w1 = w\<lparr>calls := calls w @ [ClientCall ''crawl'' pos kw]\<rparr>
      in case crawl ext pos kw of
           Inl e \<Rightarrow> (Inl e, w1)
         | Inr result \<Rightarrow> (Inr (data result), w1))"

subsection \<open>The loops of \<^verbatim>\<open>main\<close>\<close>

text \<open>The body of the search loop prints four times.\<close>

definition print_result :: "web_result \<Rightarrow> 'j world \<Rightarrow> 'j world" where
  "print_result r w =
     print ([nl] @ ''---'' @ [nl])
       (print (or_else (r_description r) ''No description'')
          (print (''URL: '' @ py_str (r_url r))
             (print (''## '' @ py_str (r_title r)) w)))"

fun print_results :: "web_result list \<Rightarrow> 'j world \<Rightarrow> 'j world" where
  "print_results [] w = w"
| "print_results (r # rs) w = print_results rs (print_result r w)"

text \<open>
  The crawl loop that writes files (lines 146 to 149): \<^verbatim>\<open>enumerate\<close> counts from 0,
  the counter is the third argument. An error ends the loop, and the pages written
  before it stay.
\<close>

definition page_filename :: "string \<Rightarrow> nat \<Rightarrow> string" where
  "page_filename output i = output @ ''/page_'' @ format_03d i @ ''.md''"

fun write_pages ::
  "'j ext \<Rightarrow> string \<Rightarrow> nat \<Rightarrow> 'j document list \<Rightarrow> 'j world \<Rightarrow> (error + unit) \<times> 'j world" where
  "write_pages ext output i [] w = (Inr (), w)"
| "write_pages ext output i (page # pages) w =
     (case open_w ext (page_filename output i) w of
        (Inl e, w1) \<Rightarrow> (Inl e, w1)
      | (Inr ok, w1) \<Rightarrow>
         (case write_w ext (page_filename output i) (or_else (markdown page) []) w1 of
            (Inl e, w2) \<Rightarrow> (Inl e, w2)
          | (Inr ok, w2) \<Rightarrow> write_pages ext output (Suc i) pages w2))"

text \<open>
  The crawl loop that prints (lines 152 to 156). \<open>page_title\<close> is the value of
  \<^verbatim>\<open>page.metadata.title if page.metadata else "Untitled"\<close>: the test looks at the
  metadata only, and the title of existing metadata is taken as it is, missing or not.
\<close>

definition page_title :: "'j document \<Rightarrow> string option" where
  "page_title page =
     (case metadata page of None \<Rightarrow> Some ''Untitled'' | Some m \<Rightarrow> title m)"

definition print_page :: "'j document \<Rightarrow> 'j world \<Rightarrow> 'j world" where
  "print_page page w =
     print ([nl] @ ''---'' @ [nl])
       (print (if truthy (markdown page) then take 1000 (the (markdown page)) else [])
          (print (''## '' @ py_str (page_title page)) w))"

fun print_pages :: "'j document list \<Rightarrow> 'j world \<Rightarrow> 'j world" where
  "print_pages [] w = w"
| "print_pages (page # pages) w = print_pages pages (print_page page w)"

subsection \<open>\<^verbatim>\<open>main\<close>\<close>

text \<open>The chain of branches under \<^verbatim>\<open># Handle commands\<close>, one equation for each.\<close>

fun handle_commands :: "'j ext \<Rightarrow> args \<Rightarrow> 'j world \<Rightarrow> (error + unit) \<times> 'j world" where
  "handle_commands ext (Markdown url main_only) w =
     (case scrape_markdown ext url main_only w of
        (Inl e, w1) \<Rightarrow> (Inl e, w1)
      | (Inr content, w1) \<Rightarrow> (Inr (), print (py_str content) w1))"
| "handle_commands ext (Screenshot url output) w =
     (case take_screenshot ext url output w of
        (Inl e, w1) \<Rightarrow> (Inl e, w1)
      | (Inr result, w1) \<Rightarrow> (Inr (), print result w1))"
| "handle_commands ext (Extract url schema_path prompt) w =
     (case files w schema_path of
        None \<Rightarrow> (Inl FileNotFoundError, w)
      | Some text \<Rightarrow>
         (case json_load ext text of
            Inl e \<Rightarrow> (Inl e, w)
          | Inr schema \<Rightarrow>
             (case extract_data ext url schema prompt w of
                (Inl e, w1) \<Rightarrow> (Inl e, w1)
              | (Inr d, w1) \<Rightarrow>
                 (case json_dumps ext d of
                    Inl e \<Rightarrow> (Inl e, w1)
                  | Inr s \<Rightarrow> (Inr (), print s w1)))))"
| "handle_commands ext (Search query limit) w =
     (case search_web ext query limit w of
        (Inl e, w1) \<Rightarrow> (Inl e, w1)
      | (Inr results, w1) \<Rightarrow> (Inr (), print_results results w1))"
| "handle_commands ext (Crawl url limit output) w =
     (case crawl_docs ext url limit w of
        (Inl e, w1) \<Rightarrow> (Inl e, w1)
      | (Inr pages, w1) \<Rightarrow>
         if truthy output then
           (case mkdir_parents_exist_ok ext (the output) w1 of
              (Inl e, w2) \<Rightarrow> (Inl e, w2)
            | (Inr ok, w2) \<Rightarrow>
               (case write_pages ext (the output) 0 pages w2 of
                  (Inl e, w3) \<Rightarrow> (Inl e, w3)
                | (Inr ok, w3) \<Rightarrow>
                   (Inr (),
                    print (''Saved '' @ str_nat (length pages) @ '' pages to '' @ the output @ ''/'')
                      w3)))
         else (Inr (), print_pages pages w1))"

text \<open>
  \<^verbatim>\<open>main\<close>: the credential test, the parser, the branches. \<open>env\<close> is the process
  environment as \<^verbatim>\<open>os.getenv\<close> reads it and \<open>argv\<close> the command line.
\<close>

definition main ::
  "'j ext \<Rightarrow> (string \<rightharpoonup> string) \<Rightarrow> string list \<Rightarrow> 'j world \<Rightarrow> (error + unit) \<times> 'j world" where
  "main ext env argv w =
     (if \<not> truthy (env ''FIRECRAWL_API_KEY'') then
        (Inl (SystemExit 1), print_err ''FIRECRAWL_API_KEY not set in environment.'' w)
      else
        (case parse_args ext argv of
           ParseExit code out err \<Rightarrow>
             (Inl (SystemExit code), w\<lparr>stdout := stdout w @ out, stderr := stderr w @ err\<rparr>)
         | Parsed a \<Rightarrow> handle_commands ext a w))"

subsection \<open>Auxiliary definitions for the statements\<close>


text \<open>The number a string of decimal digits denotes, leading zeros allowed.\<close>

definition decimal :: "string \<Rightarrow> nat" where
  "decimal s = foldl (\<lambda>a c. 10 * a + (of_char c - 48)) 0 s"

text \<open>
  Concrete inputs for the example runs below: an empty world, an environment that
  holds the credential, a response with every field missing, and an instance of the
  outside code in which the client is offline, every download is the complete text
  \<open>PNG\<close>, the only base64 text is \<open>AAAA\<close> (three zero bytes), the only JSON text is
  \<open>{}\<close> and the operating system refuses nothing of its own accord.
\<close>

definition world0 :: "string world" where
  "world0 = \<lparr>stdout = [], stderr = [], files = Map.empty, dirs = {}, calls = []\<rparr>"

definition env_key :: "string \<rightharpoonup> string" where
  "env_key = [''FIRECRAWL_API_KEY'' \<mapsto> ''fc-test'']"

definition doc0 :: "string document" where
  "doc0 = \<lparr>markdown = None, screenshot = None, json = None, metadata = None\<rparr>"

definition ext0 :: "string ext" where
  "ext0 = \<lparr>scrape = (\<lambda>pos kw. Inl (Failure ''offline'')),
           search = (\<lambda>pos kw. Inl (Failure ''offline'')),
           crawl = (\<lambda>pos kw. Inl (Failure ''offline'')),
           urlretrieve = (\<lambda>u. Inr (''PNG'', None)),
           b64decode = (\<lambda>s. if s = ''AAAA'' then Inr [CHR 0x00, CHR 0x00, CHR 0x00]
                            else Inl (Failure ''binascii.Error'')),
           json_load = (\<lambda>s. if s = ''{}'' then Inr s else Inl (Failure ''JSONDecodeError'')),
           json_dumps = (\<lambda>d. Inr (case d of None \<Rightarrow> ''null'' | Some s \<Rightarrow> s)),
           parse_args = (\<lambda>argv. ParseExit 2 [] ''usage''),
           open_error = (\<lambda>p. None),
           write_error = (\<lambda>p c. None),
           mkdir_error = (\<lambda>d. None)\<rparr>"

text \<open>
  A crawl that returns three pages with the texts \<open>A\<close>, \<open>B\<close> and the empty text,
  started with the given value of \<^verbatim>\<open>--output\<close>; and a crawl that returns the given
  number of pages without markdown, started with \<^verbatim>\<open>--limit 2000 -o out\<close>.
\<close>

definition ext_crawl3 :: "string option \<Rightarrow> string ext" where
  "ext_crawl3 output =
     ext0\<lparr>crawl := (\<lambda>pos kw. Inr \<lparr>data = [doc0\<lparr>markdown := Some ''A''\<rparr>,
                                           doc0\<lparr>markdown := Some ''B''\<rparr>,
                                           doc0\<lparr>markdown := Some []\<rparr>]\<rparr>),
          parse_args := (\<lambda>argv. Parsed (Crawl ''https://example.com'' 50 output))\<rparr>"

definition ext_crawl_many :: "nat \<Rightarrow> string ext" where
  "ext_crawl_many n =
     ext0\<lparr>crawl := (\<lambda>pos kw. Inr \<lparr>data = replicate n doc0\<rparr>),
          parse_args := (\<lambda>argv. Parsed (Crawl ''https://example.com'' 2000 (Some ''out'')))\<rparr>"

section \<open>Properties\<close>

subsection \<open>Strings and numbers\<close>

lemma data_image_not_http:
  "startswith s ''data:image'' \<Longrightarrow> \<not> startswith s ''http://'' \<and> \<not> startswith s ''https://''"
  by (cases s) (auto simp: startswith_def)

lemma split_1_first_sep:
  "sep \<notin> set pre \<Longrightarrow> split_1 sep (pre @ sep # rest) = [pre, rest]"
  by (induction pre) auto

lemma char_of_48: "char_of (48::nat) = CHR ''0''"
  by code_simp

lemma str_nat_small: "n < 10 \<Longrightarrow> str_nat n = [char_of (48 + n)]"
  by (subst str_nat.simps) simp

lemma str_nat_4: "str_nat 4 = ''4''"
  by code_simp

lemma str_nat_Suc4: "str_nat (Suc (Suc (Suc (Suc 0)))) = ''4''"
  using str_nat_4 by (simp add: eval_nat_numeral)

text \<open>Whether a path can be opened does not depend on the log of calls.\<close>

lemma open_failure_calls [simp]:
  "open_failure ext (w\<lparr>calls := c\<rparr>) p = open_failure ext w p"
  by (simp add: open_failure_def)

subsection \<open>The credential\<close>

text \<open>
  C1. When \<^verbatim>\<open>FIRECRAWL_API_KEY\<close> is absent from the environment, every run, whatever
  its command line and whatever the parser and the client would do, ends with exit
  code 1 after printing one line on the error stream. Nothing else changes: standard
  output, the files and the log of network calls are as before, and the result does
  not depend on the command line, so the parser has not run.
\<close>

theorem missing_credential_exits_1:
  assumes "env ''FIRECRAWL_API_KEY'' = None"
  shows "main ext env argv w =
           (Inl (SystemExit 1),
            w\<lparr>stderr := stderr w @ ''FIRECRAWL_API_KEY not set in environment.'' @ [nl]\<rparr>)"
  using assms by (simp add: main_def print_err_def)

theorem missing_credential_exits_1_witness:
  "Map.empty ''FIRECRAWL_API_KEY'' = (None :: string option) \<and>
   main (ext0\<lparr>parse_args := (\<lambda>argv. Parsed (Markdown ''https://example.com'' False))\<rparr>)
     Map.empty [''markdown'', ''https://example.com''] world0 =
     (Inl (SystemExit 1),
      \<lparr>stdout = [], stderr = ''FIRECRAWL_API_KEY not set in environment.'' @ [nl],
       files = Map.empty, dirs = {}, calls = []\<rparr>)"
  using missing_credential_exits_1 [of Map.empty
      "ext0\<lparr>parse_args := (\<lambda>argv. Parsed (Markdown ''https://example.com'' False))\<rparr>"
      "[''markdown'', ''https://example.com'']" world0]
  by (simp add: world0_def)

subsection \<open>Markdown\<close>




subsection \<open>Screenshot\<close>

text \<open>
  In the three statements below an output path counts as given when the script's own
  test \<^verbatim>\<open>if output_path:\<close> succeeds, that is, when \<^verbatim>\<open>--output\<close> is present with a
  text that is not empty; each statement says what happens in both cases, so no value
  of the option is left out. Each also says what happens when the file cannot be
  opened or written: the error ends the run and nothing is printed.
\<close>

text \<open>
  C4. The screenshot that the client returns begins with \<^verbatim>\<open>http://\<close> or
  \<^verbatim>\<open>https://\<close>. Without an output path the run prints exactly
  \<^verbatim>\<open>[Screenshot URL: <that string>]\<close> and touches no file. With an output path it
  fetches that locator into the path; when the fetch and the writing succeed the file
  holds the bytes fetched and the run prints \<^verbatim>\<open>Screenshot saved to <path>\<close>. When the
  locator cannot be opened or the file cannot be opened, no file changes; when the
  writing or the transfer breaks, the file holds what reached it; in all four cases the
  error leaves the script and nothing is printed.
\<close>

theorem screenshot_remote_locator:
  assumes "truthy (env ''FIRECRAWL_API_KEY'')"
    and "parse_args ext argv = Parsed (Screenshot url output)"
    and "scrape ext [PStr url] [(''formats'', PList [PStr ''screenshot''])] = Inr result"
    and "screenshot result = Some s"
    and "startswith s ''http://'' \<or> startswith s ''https://''"
  shows "main ext env argv w =
     (let sc = ClientCall ''scrape'' [PStr url] [(''formats'', PList [PStr ''screenshot''])] in
      if truthy output then
        (case urlretrieve ext s of
           Inl e \<Rightarrow> (Inl e, w\<lparr>calls := calls w @ [sc, UrlRetrieve s (the output)]\<rparr>)
         | Inr (bytes, broke) \<Rightarrow>
            (case open_failure ext w (the output) of
               Some e \<Rightarrow> (Inl e, w\<lparr>calls := calls w @ [sc, UrlRetrieve s (the output)]\<rparr>)
             | None \<Rightarrow>
                (case write_error ext (the output) bytes of
                   Some (e, part) \<Rightarrow>
                     (Inl e, w\<lparr>calls := calls w @ [sc, UrlRetrieve s (the output)],
                               files := (files w)(the output \<mapsto> part)\<rparr>)
                 | None \<Rightarrow>
                    (case broke of
                       Some e \<Rightarrow>
                         (Inl e, w\<lparr>calls := calls w @ [sc, UrlRetrieve s (the output)],
                                   files := (files w)(the output \<mapsto> bytes)\<rparr>)
                     | None \<Rightarrow>
                         (Inr (), w\<lparr>calls := calls w @ [sc, UrlRetrieve s (the output)],
                                    files := (files w)(the output \<mapsto> bytes),
                                    stdout := stdout w @ ''Screenshot saved to '' @ the output
                                                @ [nl]\<rparr>)))))
      else
        (Inr (), w\<lparr>calls := calls w @ [sc],
                   stdout := stdout w @ ''[Screenshot URL: '' @ s @ '']'' @ [nl]\<rparr>))"
  using assms
  by (simp add: main_def take_screenshot_def Let_def print_def open_w_def write_w_def
        split: sum.splits option.splits prod.splits)

theorem screenshot_remote_locator_witness:
  "main (ext0\<lparr>scrape := (\<lambda>pos kw. Inr (doc0\<lparr>screenshot := Some ''https://cdn.example/s.png''\<rparr>)),
              parse_args := (\<lambda>argv. Parsed (Screenshot ''https://example.com'' None))\<rparr>)
        env_key [''screenshot'', ''https://example.com''] world0 =
     (Inr (),
      \<lparr>stdout = ''[Screenshot URL: https://cdn.example/s.png]'' @ [nl], stderr = [],
       files = Map.empty, dirs = {},
       calls = [ClientCall ''scrape'' [PStr ''https://example.com'']
                  [(''formats'', PList [PStr ''screenshot''])]]\<rparr>)
   \<and> main (ext0\<lparr>scrape := (\<lambda>pos kw. Inr (doc0\<lparr>screenshot := Some ''https://cdn.example/s.png''\<rparr>)),
              parse_args := (\<lambda>argv. Parsed (Screenshot ''https://example.com'' (Some ''shot.png'')))\<rparr>)
        env_key [''screenshot'', ''https://example.com'', ''-o'', ''shot.png''] world0 =
     (Inr (),
      \<lparr>stdout = ''Screenshot saved to shot.png'' @ [nl], stderr = [],
       files = [''shot.png'' \<mapsto> ''PNG''], dirs = {},
       calls = [ClientCall ''scrape'' [PStr ''https://example.com'']
                  [(''formats'', PList [PStr ''screenshot''])],
                UrlRetrieve ''https://cdn.example/s.png'' ''shot.png'']\<rparr>)
   \<and> main (ext0\<lparr>scrape := (\<lambda>pos kw. Inr (doc0\<lparr>screenshot := Some ''https://cdn.example/s.png''\<rparr>)),
              parse_args := (\<lambda>argv. Parsed (Screenshot ''https://example.com'' (Some ''nodir/shot.png'')))\<rparr>)
        env_key [''screenshot'', ''https://example.com'', ''-o'', ''nodir/shot.png''] world0 =
     (Inl FileNotFoundError,
      \<lparr>stdout = [], stderr = [], files = Map.empty, dirs = {},
       calls = [ClientCall ''scrape'' [PStr ''https://example.com'']
                  [(''formats'', PList [PStr ''screenshot''])],
                UrlRetrieve ''https://cdn.example/s.png'' ''nodir/shot.png'']\<rparr>)"
  using screenshot_remote_locator [of env_key
      "ext0\<lparr>scrape := (\<lambda>pos kw. Inr (doc0\<lparr>screenshot := Some ''https://cdn.example/s.png''\<rparr>)),
              parse_args := (\<lambda>argv. Parsed (Screenshot ''https://example.com'' None))\<rparr>"
      "[''screenshot'', ''https://example.com'']" "''https://example.com''" None
      "doc0\<lparr>screenshot := Some ''https://cdn.example/s.png''\<rparr>" "''https://cdn.example/s.png''" world0]
    screenshot_remote_locator [of env_key
      "ext0\<lparr>scrape := (\<lambda>pos kw. Inr (doc0\<lparr>screenshot := Some ''https://cdn.example/s.png''\<rparr>)),
              parse_args := (\<lambda>argv. Parsed (Screenshot ''https://example.com'' (Some ''shot.png'')))\<rparr>"
      "[''screenshot'', ''https://example.com'', ''-o'', ''shot.png'']" "''https://example.com''"
      "Some ''shot.png''"
      "doc0\<lparr>screenshot := Some ''https://cdn.example/s.png''\<rparr>" "''https://cdn.example/s.png''" world0]
    screenshot_remote_locator [of env_key
      "ext0\<lparr>scrape := (\<lambda>pos kw. Inr (doc0\<lparr>screenshot := Some ''https://cdn.example/s.png''\<rparr>)),
              parse_args := (\<lambda>argv. Parsed (Screenshot ''https://example.com'' (Some ''nodir/shot.png'')))\<rparr>"
      "[''screenshot'', ''https://example.com'', ''-o'', ''nodir/shot.png'']" "''https://example.com''"
      "Some ''nodir/shot.png''"
      "doc0\<lparr>screenshot := Some ''https://cdn.example/s.png''\<rparr>" "''https://cdn.example/s.png''" world0]
  by (simp add: env_key_def world0_def ext0_def doc0_def startswith_def open_failure_def
        dirname_def)

text \<open>
  C5. The screenshot is a data URI of an image: it begins with \<^verbatim>\<open>data:image\<close> and
  has a comma, \<open>pre\<close> being the text before the first comma and \<open>payload\<close> the text
  after it. With an output path that can be opened the run decodes \<open>payload\<close> from
  base64, leaves exactly the decoded bytes in the file and prints
  \<^verbatim>\<open>Screenshot saved to <path>\<close>; when the payload is not base64 the error leaves the
  script, with the file already opened and empty, and when the writing breaks, with
  what reached the file. With an output path that cannot be opened the error of
  \<^verbatim>\<open>open\<close> leaves the script and no file changes. Without an output path the run prints
  \<^verbatim>\<open>[Screenshot: <n> bytes base64]\<close>, \<open>n\<close> being the length of \<open>payload\<close>.
\<close>

theorem screenshot_data_uri:
  assumes "truthy (env ''FIRECRAWL_API_KEY'')"
    and "parse_args ext argv = Parsed (Screenshot url output)"
    and "scrape ext [PStr url] [(''formats'', PList [PStr ''screenshot''])] = Inr result"
    and "screenshot result = Some (pre @ '','' @ payload)"
    and "startswith (pre @ '','' @ payload) ''data:image''"
    and "CHR '','' \<notin> set pre"
  shows "main ext env argv w =
     (let sc = ClientCall ''scrape'' [PStr url] [(''formats'', PList [PStr ''screenshot''])] in
      if truthy output then
        (case open_failure ext w (the output) of
           Some e \<Rightarrow> (Inl e, w\<lparr>calls := calls w @ [sc]\<rparr>)
         | None \<Rightarrow>
            (case b64decode ext payload of
               Inl e \<Rightarrow>
                 (Inl e, w\<lparr>calls := calls w @ [sc], files := (files w)(the output \<mapsto> [])\<rparr>)
             | Inr bytes \<Rightarrow>
                (case write_error ext (the output) bytes of
                   Some (e, part) \<Rightarrow>
                     (Inl e, w\<lparr>calls := calls w @ [sc],
                               files := (files w)(the output \<mapsto> part)\<rparr>)
                 | None \<Rightarrow>
                     (Inr (), w\<lparr>calls := calls w @ [sc],
                                files := (files w)(the output \<mapsto> bytes),
                                stdout := stdout w @ ''Screenshot saved to '' @ the output
                                            @ [nl]\<rparr>))))
      else
        (Inr (), w\<lparr>calls := calls w @ [sc],
                   stdout := stdout w @ ''[Screenshot: '' @ str_nat (length payload)
                               @ '' bytes base64]'' @ [nl]\<rparr>))"
proof -
  have nh: "\<not> startswith (pre @ '','' @ payload) ''http://''"
           "\<not> startswith (pre @ '','' @ payload) ''https://''"
    using data_image_not_http [OF assms(5)] by simp_all
  have sp: "index_1 (split_1 CHR '','' (pre @ '','' @ payload)) = Inr payload"
    using split_1_first_sep [OF assms(6), of payload] by simp
  show ?thesis
    using assms(1-5) nh sp
    by (simp add: main_def take_screenshot_def Let_def print_def open_w_def write_w_def
          split: sum.splits option.splits prod.splits)
qed

theorem screenshot_data_uri_witness:
  "main (ext0\<lparr>scrape := (\<lambda>pos kw. Inr (doc0\<lparr>screenshot := Some ''data:image/png;base64,AAAA''\<rparr>)),
              parse_args := (\<lambda>argv. Parsed (Screenshot ''https://example.com'' (Some ''shot.png'')))\<rparr>)
        env_key [''screenshot'', ''https://example.com'', ''-o'', ''shot.png''] world0 =
     (Inr (),
      \<lparr>stdout = ''Screenshot saved to shot.png'' @ [nl], stderr = [],
       files = [''shot.png'' \<mapsto> [CHR 0x00, CHR 0x00, CHR 0x00]], dirs = {},
       calls = [ClientCall ''scrape'' [PStr ''https://example.com'']
                  [(''formats'', PList [PStr ''screenshot''])]]\<rparr>)
   \<and> main (ext0\<lparr>scrape := (\<lambda>pos kw. Inr (doc0\<lparr>screenshot := Some ''data:image/png;base64,AAAA''\<rparr>)),
              parse_args := (\<lambda>argv. Parsed (Screenshot ''https://example.com'' None))\<rparr>)
        env_key [''screenshot'', ''https://example.com''] world0 =
     (Inr (),
      \<lparr>stdout = ''[Screenshot: 4 bytes base64]'' @ [nl], stderr = [],
       files = Map.empty, dirs = {},
       calls = [ClientCall ''scrape'' [PStr ''https://example.com'']
                  [(''formats'', PList [PStr ''screenshot''])]]\<rparr>)
   \<and> main (ext0\<lparr>scrape := (\<lambda>pos kw. Inr (doc0\<lparr>screenshot := Some ''data:image/png;base64,AAAA''\<rparr>)),
              parse_args := (\<lambda>argv. Parsed (Screenshot ''https://example.com'' (Some ''nodir/shot.png'')))\<rparr>)
        env_key [''screenshot'', ''https://example.com'', ''-o'', ''nodir/shot.png''] world0 =
     (Inl FileNotFoundError,
      \<lparr>stdout = [], stderr = [], files = Map.empty, dirs = {},
       calls = [ClientCall ''scrape'' [PStr ''https://example.com'']
                  [(''formats'', PList [PStr ''screenshot''])]]\<rparr>)"
  using screenshot_data_uri [of env_key
      "ext0\<lparr>scrape := (\<lambda>pos kw. Inr (doc0\<lparr>screenshot := Some ''data:image/png;base64,AAAA''\<rparr>)),
              parse_args := (\<lambda>argv. Parsed (Screenshot ''https://example.com'' (Some ''shot.png'')))\<rparr>"
      "[''screenshot'', ''https://example.com'', ''-o'', ''shot.png'']" "''https://example.com''"
      "Some ''shot.png''"
      "doc0\<lparr>screenshot := Some ''data:image/png;base64,AAAA''\<rparr>"
      "''data:image/png;base64''" "''AAAA''" world0]
    screenshot_data_uri [of env_key
      "ext0\<lparr>scrape := (\<lambda>pos kw. Inr (doc0\<lparr>screenshot := Some ''data:image/png;base64,AAAA''\<rparr>)),
              parse_args := (\<lambda>argv. Parsed (Screenshot ''https://example.com'' None))\<rparr>"
      "[''screenshot'', ''https://example.com'']" "''https://example.com''" None
      "doc0\<lparr>screenshot := Some ''data:image/png;base64,AAAA''\<rparr>"
      "''data:image/png;base64''" "''AAAA''" world0]
    screenshot_data_uri [of env_key
      "ext0\<lparr>scrape := (\<lambda>pos kw. Inr (doc0\<lparr>screenshot := Some ''data:image/png;base64,AAAA''\<rparr>)),
              parse_args := (\<lambda>argv. Parsed (Screenshot ''https://example.com'' (Some ''nodir/shot.png'')))\<rparr>"
      "[''screenshot'', ''https://example.com'', ''-o'', ''nodir/shot.png'']" "''https://example.com''"
      "Some ''nodir/shot.png''"
      "doc0\<lparr>screenshot := Some ''data:image/png;base64,AAAA''\<rparr>"
      "''data:image/png;base64''" "''AAAA''" world0]
  by (simp add: env_key_def world0_def ext0_def doc0_def startswith_def str_nat_4 str_nat_Suc4
        open_failure_def dirname_def)

text \<open>
  C9. The screenshot begins with none of \<^verbatim>\<open>http://\<close>, \<^verbatim>\<open>https://\<close> and
  \<^verbatim>\<open>data:image\<close>. The script then takes the whole string for base64: with an output
  path that can be opened it decodes the whole string and leaves the decoded bytes in
  the file (the error of the decoding or of the writing leaves the script as in C5),
  with an output path that cannot be opened the error of \<^verbatim>\<open>open\<close> leaves the script
  and no file changes, and without an output path it prints
  \<^verbatim>\<open>[Screenshot: <n> bytes base64]\<close>, \<open>n\<close> being the length of the string itself and
  not of what it decodes to.
\<close>

theorem screenshot_bare_base64:
  assumes "truthy (env ''FIRECRAWL_API_KEY'')"
    and "parse_args ext argv = Parsed (Screenshot url output)"
    and "scrape ext [PStr url] [(''formats'', PList [PStr ''screenshot''])] = Inr result"
    and "screenshot result = Some s"
    and "\<not> startswith s ''http://''" and "\<not> startswith s ''https://''"
    and "\<not> startswith s ''data:image''"
  shows "main ext env argv w =
     (let sc = ClientCall ''scrape'' [PStr url] [(''formats'', PList [PStr ''screenshot''])] in
      if truthy output then
        (case open_failure ext w (the output) of
           Some e \<Rightarrow> (Inl e, w\<lparr>calls := calls w @ [sc]\<rparr>)
         | None \<Rightarrow>
            (case b64decode ext s of
               Inl e \<Rightarrow>
                 (Inl e, w\<lparr>calls := calls w @ [sc], files := (files w)(the output \<mapsto> [])\<rparr>)
             | Inr bytes \<Rightarrow>
                (case write_error ext (the output) bytes of
                   Some (e, part) \<Rightarrow>
                     (Inl e, w\<lparr>calls := calls w @ [sc],
                               files := (files w)(the output \<mapsto> part)\<rparr>)
                 | None \<Rightarrow>
                     (Inr (), w\<lparr>calls := calls w @ [sc],
                                files := (files w)(the output \<mapsto> bytes),
                                stdout := stdout w @ ''Screenshot saved to '' @ the output
                                            @ [nl]\<rparr>))))
      else
        (Inr (), w\<lparr>calls := calls w @ [sc],
                   stdout := stdout w @ ''[Screenshot: '' @ str_nat (length s)
                               @ '' bytes base64]'' @ [nl]\<rparr>))"
  using assms
  by (simp add: main_def take_screenshot_def Let_def print_def open_w_def write_w_def
        split: sum.splits option.splits prod.splits)

theorem screenshot_bare_base64_witness:
  "main (ext0\<lparr>scrape := (\<lambda>pos kw. Inr (doc0\<lparr>screenshot := Some ''AAAA''\<rparr>)),
              parse_args := (\<lambda>argv. Parsed (Screenshot ''https://example.com'' (Some ''shot.png'')))\<rparr>)
        env_key [''screenshot'', ''https://example.com'', ''-o'', ''shot.png''] world0 =
     (Inr (),
      \<lparr>stdout = ''Screenshot saved to shot.png'' @ [nl], stderr = [],
       files = [''shot.png'' \<mapsto> [CHR 0x00, CHR 0x00, CHR 0x00]], dirs = {},
       calls = [ClientCall ''scrape'' [PStr ''https://example.com'']
                  [(''formats'', PList [PStr ''screenshot''])]]\<rparr>)
   \<and> main (ext0\<lparr>scrape := (\<lambda>pos kw. Inr (doc0\<lparr>screenshot := Some ''AAAA''\<rparr>)),
              parse_args := (\<lambda>argv. Parsed (Screenshot ''https://example.com'' None))\<rparr>)
        env_key [''screenshot'', ''https://example.com''] world0 =
     (Inr (),
      \<lparr>stdout = ''[Screenshot: 4 bytes base64]'' @ [nl], stderr = [],
       files = Map.empty, dirs = {},
       calls = [ClientCall ''scrape'' [PStr ''https://example.com'']
                  [(''formats'', PList [PStr ''screenshot''])]]\<rparr>)
   \<and> main (ext0\<lparr>scrape := (\<lambda>pos kw. Inr (doc0\<lparr>screenshot := Some ''AAAA''\<rparr>)),
              parse_args := (\<lambda>argv. Parsed (Screenshot ''https://example.com'' (Some ''nodir/shot.png'')))\<rparr>)
        env_key [''screenshot'', ''https://example.com'', ''-o'', ''nodir/shot.png''] world0 =
     (Inl FileNotFoundError,
      \<lparr>stdout = [], stderr = [], files = Map.empty, dirs = {},
       calls = [ClientCall ''scrape'' [PStr ''https://example.com'']
                  [(''formats'', PList [PStr ''screenshot''])]]\<rparr>)"
  using screenshot_bare_base64 [of env_key
      "ext0\<lparr>scrape := (\<lambda>pos kw. Inr (doc0\<lparr>screenshot := Some ''AAAA''\<rparr>)),
              parse_args := (\<lambda>argv. Parsed (Screenshot ''https://example.com'' (Some ''shot.png'')))\<rparr>"
      "[''screenshot'', ''https://example.com'', ''-o'', ''shot.png'']" "''https://example.com''"
      "Some ''shot.png''" "doc0\<lparr>screenshot := Some ''AAAA''\<rparr>" "''AAAA''" world0]
    screenshot_bare_base64 [of env_key
      "ext0\<lparr>scrape := (\<lambda>pos kw. Inr (doc0\<lparr>screenshot := Some ''AAAA''\<rparr>)),
              parse_args := (\<lambda>argv. Parsed (Screenshot ''https://example.com'' None))\<rparr>"
      "[''screenshot'', ''https://example.com'']" "''https://example.com''" None
      "doc0\<lparr>screenshot := Some ''AAAA''\<rparr>" "''AAAA''" world0]
    screenshot_bare_base64 [of env_key
      "ext0\<lparr>scrape := (\<lambda>pos kw. Inr (doc0\<lparr>screenshot := Some ''AAAA''\<rparr>)),
              parse_args := (\<lambda>argv. Parsed (Screenshot ''https://example.com'' (Some ''nodir/shot.png'')))\<rparr>"
      "[''screenshot'', ''https://example.com'', ''-o'', ''nodir/shot.png'']" "''https://example.com''"
      "Some ''nodir/shot.png''" "doc0\<lparr>screenshot := Some ''AAAA''\<rparr>" "''AAAA''" world0]
  by (simp add: env_key_def world0_def ext0_def doc0_def startswith_def str_nat_4 str_nat_Suc4
        open_failure_def dirname_def)

subsection \<open>Decimal indices and file names\<close>

lemma decimal_snoc: "decimal (s @ [c]) = 10 * decimal s + (of_char c - 48)"
  by (simp add: decimal_def)

lemma of_char_digit: "d < 10 \<Longrightarrow> (of_char (char_of (48 + d :: nat)) :: nat) = 48 + d"
  by (simp add: of_char_of)

lemma decimal_str_nat: "decimal (str_nat n) = n"
proof (induction n rule: str_nat.induct)
  case (1 n)
  show ?case
  proof (cases "n < 10")
    case True
    then show ?thesis
      by (subst str_nat.simps) (simp add: decimal_def of_char_digit)
  next
    case False
    have m: "n mod 10 < 10" by simp
    from False 1 have "decimal (str_nat (n div 10)) = n div 10" by simp
    with False show ?thesis
      by (subst str_nat.simps) (simp add: decimal_snoc of_char_digit [OF m])
  qed
qed

lemma decimal_zeros: "decimal (replicate k CHR ''0'' @ s) = decimal s"
proof -
  have "foldl (\<lambda>a c. 10 * a + (of_char c - 48)) 0 (replicate k CHR ''0'') = (0::nat)"
    by (induction k) simp_all
  then show ?thesis by (simp add: decimal_def)
qed

lemma decimal_format_03d: "decimal (format_03d i) = i"
  by (simp add: format_03d_def decimal_zeros decimal_str_nat)

lemma format_03d_inj: "format_03d i = format_03d j \<Longrightarrow> i = j"
  by (metis decimal_format_03d)

lemma page_filename_inj: "page_filename d i = page_filename d j \<Longrightarrow> i = j"
  by (simp add: page_filename_def format_03d_inj)

lemma format_03d_length: "3 \<le> length (format_03d i)"
  by (simp add: format_03d_def)

lemma str_nat_two:
  "10 \<le> n \<Longrightarrow> n < 100 \<Longrightarrow> str_nat n = [char_of (48 + n div 10), char_of (48 + n mod 10)]"
  by (subst str_nat.simps) (simp add: str_nat_small)

lemma str_nat_three:
  "100 \<le> n \<Longrightarrow> n < 1000 \<Longrightarrow>
     str_nat n = [char_of (48 + n div 100), char_of (48 + n div 10 mod 10), char_of (48 + n mod 10)]"
  by (subst str_nat.simps) (simp add: str_nat_two div_mult2_eq [symmetric])

lemma format_03d_three_digits:
  assumes "i < 1000"
  shows "format_03d i =
           [char_of (48 + i div 100), char_of (48 + i div 10 mod 10), char_of (48 + i mod 10)]"
proof -
  consider "i < 10" | "10 \<le> i" "i < 100" | "100 \<le> i" "i < 1000"
    using assms by linarith
  then show ?thesis
  proof cases
    case 1
    then show ?thesis by (simp add: format_03d_def str_nat_small numeral_3_eq_3 char_of_48)
  next
    case 2
    then show ?thesis by (simp add: format_03d_def str_nat_two numeral_3_eq_3 char_of_48)
  next
    case 3
    then show ?thesis by (simp add: format_03d_def str_nat_three)
  qed
qed

lemma digit_chars: "map (\<lambda>d. char_of (48 + d)) [0..<10::nat] = ''0123456789''"
  by code_simp

lemma digit_char: "k < 10 \<Longrightarrow> char_of (48 + k) = ''0123456789'' ! k"
proof -
  assume k: "k < 10"
  have "''0123456789'' ! k = map (\<lambda>d. char_of (48 + d)) [0..<10::nat] ! k"
    by (simp only: digit_chars)
  also have "\<dots> = char_of (48 + k)"
    using k by (simp only: nth_map length_upt nth_upt) simp
  finally show ?thesis by simp
qed

lemma format_03d_digits:
  assumes "i < 1000"
  shows "format_03d i = [''0123456789'' ! (i div 100), ''0123456789'' ! (i div 10 mod 10),
                         ''0123456789'' ! (i mod 10)]"
proof -
  have a: "i div 100 < 10" using assms by simp
  have b: "i div 10 mod 10 < 10" by simp
  have c: "i mod 10 < 10" by simp
  show ?thesis
    by (simp only: format_03d_three_digits [OF assms] digit_char [OF a] digit_char [OF b]
          digit_char [OF c])
qed

lemma format_03d_0: "format_03d 0 = ''000''"
  by code_simp

lemma format_03d_1: "format_03d (Suc 0) = ''001''"
  by code_simp

lemma format_03d_2: "format_03d (Suc (Suc 0)) = ''002''"
  by code_simp

lemma str_nat_Suc3: "str_nat (Suc (Suc (Suc 0))) = ''3''"
  by code_simp

subsection \<open>Paths\<close>

lemma parents_from_length:
  "a \<in> set (parents_from acc cs) \<Longrightarrow> length a < length acc + length cs"
proof (induction cs arbitrary: acc)
  case Nil
  then show ?case by simp
next
  case (Cons c cs)
  from Cons.prems have "a = acc \<or> a \<in> set (parents_from (acc @ [c]) cs)"
    by (auto split: if_splits)
  then show ?case
  proof
    assume "a = acc"
    then show ?thesis by simp
  next
    assume "a \<in> set (parents_from (acc @ [c]) cs)"
    from Cons.IH [OF this] show ?thesis by simp
  qed
qed

lemma parents_shorter: "a \<in> set (parents d) \<Longrightarrow> length a < length d"
  using parents_from_length [of a "[]" d] by (simp add: parents_def)

lemma str_nat_digits: "set (str_nat n) \<subseteq> set ''0123456789''"
proof (induction n rule: str_nat.induct)
  case (1 n)
  have d: "\<And>k::nat. k < 10 \<Longrightarrow> char_of (48 + k) \<in> set ''0123456789''"
  proof -
    fix k :: nat assume k: "k < 10"
    then have "''0123456789'' ! k \<in> set ''0123456789''"
      by (intro nth_mem) simp
    then show "char_of (48 + k) \<in> set ''0123456789''"
      by (simp only: digit_char [OF k])
  qed
  show ?case
  proof (cases "n < 10")
    case True
    then show ?thesis
      using d [of n] by (subst str_nat.simps) simp
  next
    case False
    have "n mod 10 < 10" by simp
    from d [OF this] 1 False show ?thesis
      by (subst str_nat.simps) simp
  qed
qed

lemma format_03d_no_slash: "CHR ''/'' \<notin> set (format_03d i)"
proof -
  have "set (format_03d i) \<subseteq> set ''0123456789''"
    using str_nat_digits [of i] by (auto simp: format_03d_def)
  then show ?thesis by auto
qed

lemma dirname_append_name:
  assumes "CHR ''/'' \<notin> set name"
  shows "dirname (d @ CHR ''/'' # name) = d"
proof -
  from assms have "\<And>x. x \<in> set (rev name) \<Longrightarrow> x \<noteq> CHR ''/''"
    by auto
  from dropWhile_append2 [of "rev name" "\<lambda>c. c \<noteq> CHR ''/''", OF this]
  have "dropWhile (\<lambda>c. c \<noteq> CHR ''/'') (rev name @ CHR ''/'' # rev d) = CHR ''/'' # rev d"
    by simp
  then show ?thesis by (simp add: dirname_def)
qed

lemma dirname_page_filename: "dirname (page_filename d i) = d"
proof -
  have "CHR ''/'' \<notin> set (''page_'' @ format_03d i @ ''.md'')"
    using format_03d_no_slash [of i] by simp
  from dirname_append_name [OF this, of d] show ?thesis
    by (simp add: page_filename_def)
qed

lemma page_filename_last: "last (page_filename d i) = CHR ''d''"
  by (simp add: page_filename_def)

lemma page_filename_longer: "length d < length (page_filename d i)"
  by (simp add: page_filename_def)

lemma page_filename_not_dir: "page_filename d i \<noteq> d"
  using page_filename_longer [of d i] by auto

lemma page_filename_not_parent: "page_filename d i \<notin> set (parents d)"
  using parents_shorter [of "page_filename d i" d] page_filename_longer [of d i] by auto

subsection \<open>Crawl into a directory\<close>

lemma or_else_empty: "or_else x [] = (case x of None \<Rightarrow> [] | Some m \<Rightarrow> m)"
  by (simp add: or_else_def split: option.splits)

lemma open_page_ok:
  assumes "d \<noteq> []" "d \<in> dirs w" "files w d = None"
    and "page_filename d i \<notin> dirs w" "open_error ext (page_filename d i) = None"
  shows "open_failure ext w (page_filename d i) = None"
  using assms
  by (simp add: open_failure_def dirname_page_filename page_filename_last)
     (simp add: page_filename_def)

lemma write_page_ok:
  assumes "d \<noteq> []" "d \<in> dirs w" "files w d = None"
    and "page_filename d i \<notin> dirs w" "open_error ext (page_filename d i) = None"
    and "write_error ext (page_filename d i) (or_else (markdown page) []) = None"
  shows "write_pages ext d i (page # pages) w =
           write_pages ext d (Suc i) pages
             (w\<lparr>files := (files w)(page_filename d i \<mapsto> or_else (markdown page) [])\<rparr>)"
  using open_page_ok [OF assms(1-5)] assms(6)
  by (simp add: open_w_def write_w_def)

lemma write_pages_ok:
  assumes "d \<noteq> []" "d \<in> dirs w" "files w d = None"
    and "\<And>k. k < length pages \<Longrightarrow>
           page_filename d (i + k) \<notin> dirs w
           \<and> open_error ext (page_filename d (i + k)) = None
           \<and> write_error ext (page_filename d (i + k)) (or_else (markdown (pages ! k)) []) = None"
  shows "fst (write_pages ext d i pages w) = Inr ()
         \<and> stdout (snd (write_pages ext d i pages w)) = stdout w
         \<and> stderr (snd (write_pages ext d i pages w)) = stderr w
         \<and> dirs (snd (write_pages ext d i pages w)) = dirs w
         \<and> calls (snd (write_pages ext d i pages w)) = calls w
         \<and> (\<forall>k<length pages.
               files (snd (write_pages ext d i pages w)) (page_filename d (i + k)) =
                 Some (or_else (markdown (pages ! k)) []))
         \<and> (\<forall>p. (\<forall>k<length pages. p \<noteq> page_filename d (i + k))
               \<longrightarrow> files (snd (write_pages ext d i pages w)) p = files w p)"
  using assms
proof (induction pages arbitrary: i w)
  case Nil
  show ?case by simp
next
  case (Cons page pages)
  let ?p = "page_filename d i"
  let ?c = "or_else (markdown page) []"
  let ?w = "w\<lparr>files := (files w)(?p \<mapsto> ?c)\<rparr>"
  have h0: "?p \<notin> dirs w" "open_error ext ?p = None" "write_error ext ?p ?c = None"
    using Cons.prems(4) [of 0] by simp_all
  have step: "write_pages ext d i (page # pages) w = write_pages ext d (Suc i) pages ?w"
    using write_page_ok [OF Cons.prems(1-3) h0, of pages] by simp
  have d1: "d \<in> dirs ?w" using Cons.prems(2) by simp
  have d2: "files ?w d = None"
    using Cons.prems(3) page_filename_not_dir [of d i] by simp
  have rest: "\<And>k. k < length pages \<Longrightarrow>
           page_filename d (Suc i + k) \<notin> dirs ?w
           \<and> open_error ext (page_filename d (Suc i + k)) = None
           \<and> write_error ext (page_filename d (Suc i + k)) (or_else (markdown (pages ! k)) []) = None"
    using Cons.prems(4) [of "Suc k" for k] by simp
  note ih = Cons.IH [OF Cons.prems(1) d1 d2 rest]
  have first: "files (snd (write_pages ext d (Suc i) pages ?w)) ?p = Some ?c"
  proof -
    have "\<forall>k<length pages. ?p \<noteq> page_filename d (Suc i + k)"
      using page_filename_inj [of d i] by fastforce
    with ih have "files (snd (write_pages ext d (Suc i) pages ?w)) ?p = files ?w ?p"
      by blast
    then show ?thesis by simp
  qed
  have written: "\<forall>k<length (page # pages).
               files (snd (write_pages ext d (Suc i) pages ?w)) (page_filename d (i + k)) =
                 Some (or_else (markdown ((page # pages) ! k)) [])"
  proof (intro allI impI)
    fix k assume k: "k < length (page # pages)"
    show "files (snd (write_pages ext d (Suc i) pages ?w)) (page_filename d (i + k)) =
                 Some (or_else (markdown ((page # pages) ! k)) [])"
    proof (cases k)
      case 0
      with first show ?thesis by simp
    next
      case (Suc k')
      with k have "k' < length pages" by simp
      with ih have "files (snd (write_pages ext d (Suc i) pages ?w)) (page_filename d (Suc i + k')) =
                 Some (or_else (markdown (pages ! k')) [])"
        by blast
      with Suc show ?thesis by simp
    qed
  qed
  have untouched: "\<forall>p. (\<forall>k<length (page # pages). p \<noteq> page_filename d (i + k))
               \<longrightarrow> files (snd (write_pages ext d (Suc i) pages ?w)) p = files w p"
  proof (intro allI impI)
    fix p assume a: "\<forall>k<length (page # pages). p \<noteq> page_filename d (i + k)"
    from a have p0: "p \<noteq> ?p" by fastforce
    have "\<forall>k<length pages. p \<noteq> page_filename d (Suc i + k)"
    proof (intro allI impI)
      fix k assume "k < length pages"
      then have "Suc k < length (page # pages)" by simp
      with a have "p \<noteq> page_filename d (i + Suc k)" by blast
      then show "p \<noteq> page_filename d (Suc i + k)" by simp
    qed
    with ih have "files (snd (write_pages ext d (Suc i) pages ?w)) p = files ?w p"
      by blast
    with p0 show "files (snd (write_pages ext d (Suc i) pages ?w)) p = files w p"
      by simp
  qed
  from ih have others: "fst (write_pages ext d (Suc i) pages ?w) = Inr ()"
      "stdout (snd (write_pages ext d (Suc i) pages ?w)) = stdout w"
      "stderr (snd (write_pages ext d (Suc i) pages ?w)) = stderr w"
      "dirs (snd (write_pages ext d (Suc i) pages ?w)) = dirs w"
      "calls (snd (write_pages ext d (Suc i) pages ?w)) = calls w"
    by simp_all
  show ?case
    unfolding step using others written untouched by blast
qed

lemma crawl_into_directory:
  assumes "truthy (env ''FIRECRAWL_API_KEY'')"
    and "parse_args ext argv = Parsed (Crawl url limit (Some d))"
    and "d \<noteq> []"
    and "crawl ext [PStr url]
           [(''limit'', PInt limit),
            (''scrape_options'',
             PDict [(''formats'', PList [PStr ''markdown'']), (''onlyMainContent'', PBool True)])]
         = Inr job"
    and "files w d = None"
    and "\<forall>a \<in> set (parents d). files w a = None"
    and "mkdir_error ext d = None"
    and "\<forall>i<length (data job).
           page_filename d i \<notin> dirs w
           \<and> open_error ext (page_filename d i) = None
           \<and> write_error ext (page_filename d i) (or_else (markdown (data job ! i)) []) = None"
  shows "fst (main ext env argv w) = Inr ()
         \<and> dirs (snd (main ext env argv w)) = dirs w \<union> set (parents d) \<union> {d}
         \<and> (\<forall>i<length (data job).
               files (snd (main ext env argv w)) (page_filename d i) =
                 Some (or_else (markdown (data job ! i)) []))
         \<and> (\<forall>p. (\<forall>i<length (data job). p \<noteq> page_filename d i)
               \<longrightarrow> files (snd (main ext env argv w)) p = files w p)
         \<and> stdout (snd (main ext env argv w)) =
               stdout w @ ''Saved '' @ str_nat (length (data job)) @ '' pages to '' @ d @ ''/'' @ [nl]
         \<and> stderr (snd (main ext env argv w)) = stderr w
         \<and> calls (snd (main ext env argv w)) =
               calls w @ [ClientCall ''crawl'' [PStr url]
                 [(''limit'', PInt limit),
                  (''scrape_options'',
                   PDict [(''formats'', PList [PStr ''markdown'']),
                          (''onlyMainContent'', PBool True)])]]"
proof -
  let ?c = "ClientCall ''crawl'' [PStr url]
                 [(''limit'', PInt limit),
                  (''scrape_options'',
                   PDict [(''formats'', PList [PStr ''markdown'']),
                          (''onlyMainContent'', PBool True)])]"
  let ?w2 = "w\<lparr>calls := calls w @ [?c], dirs := dirs w \<union> set (parents d) \<union> {d}\<rparr>"
  let ?r = "write_pages ext d 0 (data job) ?w2"
  have mk: "mkdir_parents_exist_ok ext d (w\<lparr>calls := calls w @ [?c]\<rparr>) = (Inr (), ?w2)"
    using assms(5-7) by (simp add: mkdir_parents_exist_ok_def)
  have pre: "\<And>k. k < length (data job) \<Longrightarrow>
           page_filename d (0 + k) \<notin> dirs ?w2
           \<and> open_error ext (page_filename d (0 + k)) = None
           \<and> write_error ext (page_filename d (0 + k)) (or_else (markdown (data job ! k)) []) = None"
    using assms(8) page_filename_not_parent [of d] page_filename_not_dir [of d] by simp
  have d1: "d \<in> dirs ?w2" by simp
  have d2: "files ?w2 d = None" using assms(5) by simp
  note wp = write_pages_ok [of d ?w2 "data job" 0 ext, OF assms(3) d1 d2 pre]
  from wp obtain w3 where r: "write_pages ext d 0 (data job) ?w2 = (Inr (), w3)"
    by (cases "write_pages ext d 0 (data job) ?w2") auto
  have m: "main ext env argv w =
             (Inr (), print (''Saved '' @ str_nat (length (data job)) @ '' pages to '' @ d @ ''/'')
                        w3)"
    using assms(1-4) mk r
    by (simp add: main_def crawl_docs_def Let_def)
  from wp have fields: "stdout w3 = stdout w" "stderr w3 = stderr w"
      "dirs w3 = dirs w \<union> set (parents d) \<union> {d}" "calls w3 = calls w @ [?c]"
    unfolding r by simp_all
  from wp have written: "\<forall>i<length (data job).
               files w3 (page_filename d i) = Some (or_else (markdown (data job ! i)) [])"
    unfolding r by simp
  from wp have untouched: "\<forall>p. (\<forall>i<length (data job). p \<noteq> page_filename d i)
               \<longrightarrow> files w3 p = files w p"
    unfolding r by simp
  have f: "files (snd (main ext env argv w)) = files w3"
    by (simp add: m print_def)
  show ?thesis
    apply (intro conjI)
          apply (simp add: m)
         apply (simp add: m print_def fields)
        apply (simp only: f) apply (rule written)
       apply (simp only: f) apply (rule untouched)
      apply (simp add: m print_def fields)
     apply (simp add: m print_def fields)
    apply (simp add: m print_def fields)
    done
qed

text \<open>
  C6. A \<^verbatim>\<open>crawl\<close> run with an output directory \<open>d\<close> (the option present and not
  empty) whose call to the client succeeds, and in which creating the directory and
  writing the files succeed (neither \<open>d\<close> nor an ancestor of it is a regular file, no
  page file is a directory, and the operating system refuses nothing), ends normally.
  Afterwards the directory and its ancestors exist, whether or not they did before;
  for every position \<open>i\<close> in the sequence of pages the file \<^verbatim>\<open>d/page_<index>.md\<close> holds
  the markdown of page \<open>i\<close>, or the empty text when the page has none; every other file
  is as it was. The index is \<open>i\<close> in decimal, padded with zeros to at least three
  characters: it reads back as \<open>i\<close>, and for \<open>i\<close> below 1000 it is exactly the three
  digits of \<open>i\<close>. The run prints \<^verbatim>\<open>Saved <count> pages to d/\<close> and nothing else.
\<close>

theorem crawl_writes_numbered_files:
  assumes "truthy (env ''FIRECRAWL_API_KEY'')"
    and "parse_args ext argv = Parsed (Crawl url limit (Some d))"
    and "d \<noteq> []"
    and "crawl ext [PStr url]
           [(''limit'', PInt limit),
            (''scrape_options'',
             PDict [(''formats'', PList [PStr ''markdown'']), (''onlyMainContent'', PBool True)])]
         = Inr job"
    and "files w d = None"
    and "\<forall>a \<in> set (parents d). files w a = None"
    and "mkdir_error ext d = None"
    and "\<forall>i<length (data job).
           d @ ''/page_'' @ format_03d i @ ''.md'' \<notin> dirs w
           \<and> open_error ext (d @ ''/page_'' @ format_03d i @ ''.md'') = None
           \<and> write_error ext (d @ ''/page_'' @ format_03d i @ ''.md'')
                (case markdown (data job ! i) of None \<Rightarrow> [] | Some m \<Rightarrow> m) = None"
  shows "(let w' = snd (main ext env argv w); pages = data job in
          fst (main ext env argv w) = Inr ()
          \<and> dirs w' = dirs w \<union> set (parents d) \<union> {d}
          \<and> (\<forall>i<length pages.
                files w' (d @ ''/page_'' @ format_03d i @ ''.md'') =
                  Some (case markdown (pages ! i) of None \<Rightarrow> [] | Some m \<Rightarrow> m))
          \<and> (\<forall>p. (\<forall>i<length pages. p \<noteq> d @ ''/page_'' @ format_03d i @ ''.md'')
                 \<longrightarrow> files w' p = files w p)
          \<and> (\<forall>i. decimal (format_03d i) = i \<and> 3 \<le> length (format_03d i))
          \<and> (\<forall>i<1000. format_03d i =
                 [''0123456789'' ! (i div 100), ''0123456789'' ! (i div 10 mod 10),
                  ''0123456789'' ! (i mod 10)])
          \<and> stdout w' = stdout w @ ''Saved '' @ str_nat (length pages) @ '' pages to '' @ d @ ''/'' @ [nl]
          \<and> stderr w' = stderr w
          \<and> calls w' = calls w @ [ClientCall ''crawl'' [PStr url]
                 [(''limit'', PInt limit),
                  (''scrape_options'',
                   PDict [(''formats'', PList [PStr ''markdown'']),
                          (''onlyMainContent'', PBool True)])]])"
proof -
  have h: "\<forall>i<length (data job).
           page_filename d i \<notin> dirs w
           \<and> open_error ext (page_filename d i) = None
           \<and> write_error ext (page_filename d i) (or_else (markdown (data job ! i)) []) = None"
    using assms(8) by (simp add: page_filename_def or_else_empty)
  have c: "fst (main ext env argv w) = Inr ()
         \<and> dirs (snd (main ext env argv w)) = dirs w \<union> set (parents d) \<union> {d}
         \<and> (\<forall>i<length (data job).
               files (snd (main ext env argv w)) (page_filename d i) =
                 Some (or_else (markdown (data job ! i)) []))
         \<and> (\<forall>p. (\<forall>i<length (data job). p \<noteq> page_filename d i)
               \<longrightarrow> files (snd (main ext env argv w)) p = files w p)
         \<and> stdout (snd (main ext env argv w)) =
               stdout w @ ''Saved '' @ str_nat (length (data job)) @ '' pages to '' @ d @ ''/'' @ [nl]
         \<and> stderr (snd (main ext env argv w)) = stderr w
         \<and> calls (snd (main ext env argv w)) =
               calls w @ [ClientCall ''crawl'' [PStr url]
                 [(''limit'', PInt limit),
                  (''scrape_options'',
                   PDict [(''formats'', PList [PStr ''markdown'']),
                          (''onlyMainContent'', PBool True)])]]"
    using assms(1-7) h by (rule crawl_into_directory)
  have fmt: "\<forall>i. decimal (format_03d i) = i \<and> 3 \<le> length (format_03d i)"
    by (simp add: decimal_format_03d format_03d_length)
  have dig: "\<forall>i<1000. format_03d i =
                 [''0123456789'' ! (i div 100), ''0123456789'' ! (i div 10 mod 10),
                  ''0123456789'' ! (i mod 10)]"
    by (simp add: format_03d_digits)
  from c fmt dig show ?thesis
    unfolding Let_def page_filename_def or_else_empty by blast
qed

theorem crawl_writes_numbered_files_witness:
  "fst (main (ext_crawl3 (Some ''site/docs'')) env_key
          [''crawl'', ''https://example.com'', ''-o'', ''site/docs''] world0) = Inr ()
   \<and> files (snd (main (ext_crawl3 (Some ''site/docs'')) env_key
          [''crawl'', ''https://example.com'', ''-o'', ''site/docs''] world0))
        ''site/docs/page_000.md'' = Some ''A''
   \<and> files (snd (main (ext_crawl3 (Some ''site/docs'')) env_key
          [''crawl'', ''https://example.com'', ''-o'', ''site/docs''] world0))
        ''site/docs/page_001.md'' = Some ''B''
   \<and> files (snd (main (ext_crawl3 (Some ''site/docs'')) env_key
          [''crawl'', ''https://example.com'', ''-o'', ''site/docs''] world0))
        ''site/docs/page_002.md'' = Some []
   \<and> files (snd (main (ext_crawl3 (Some ''site/docs'')) env_key
          [''crawl'', ''https://example.com'', ''-o'', ''site/docs''] world0))
        ''site/docs/page_003.md'' = None
   \<and> dirs (snd (main (ext_crawl3 (Some ''site/docs'')) env_key
          [''crawl'', ''https://example.com'', ''-o'', ''site/docs''] world0))
        = {''site'', ''site/docs''}
   \<and> stdout (snd (main (ext_crawl3 (Some ''site/docs'')) env_key
          [''crawl'', ''https://example.com'', ''-o'', ''site/docs''] world0))
       = ''Saved 3 pages to site/docs/'' @ [nl]"
  using crawl_writes_numbered_files [of env_key "ext_crawl3 (Some ''site/docs'')"
      "[''crawl'', ''https://example.com'', ''-o'', ''site/docs'']" "''https://example.com''" 50
      "''site/docs''"
      "\<lparr>data = [doc0\<lparr>markdown := Some ''A''\<rparr>, doc0\<lparr>markdown := Some ''B''\<rparr>,
                doc0\<lparr>markdown := Some []\<rparr>]\<rparr>" world0]
  apply (simp add: env_key_def ext_crawl3_def ext0_def Let_def All_less_Suc format_03d_0
      format_03d_1 format_03d_2 str_nat_Suc3 doc0_def parents_def)
  apply (simp add: world0_def)
  apply blast
  done

text \<open>
  A crawl of 1001 pages writes its last page, the one at position 1000, to
  \<^verbatim>\<open>out/page_1000.md\<close>: the index has four digits.
\<close>

lemma format_03d_1000: "format_03d 1000 = ''1000''"
  by code_simp

theorem crawl_page_1000_has_four_digits:
  "files (snd (main (ext_crawl_many 1001) env_key
      [''crawl'', ''https://example.com'', ''--limit'', ''2000'', ''-o'', ''out''] world0))
      ''out/page_1000.md'' = Some []
   \<and> page_filename ''out'' 1000 = ''out/page_1000.md''
   \<and> length (format_03d 1000) = 4"
proof -
  let ?run = "main (ext_crawl_many 1001) env_key
      [''crawl'', ''https://example.com'', ''--limit'', ''2000'', ''-o'', ''out''] world0"
  have name: "page_filename ''out'' 1000 = ''out/page_1000.md''"
    by (simp add: page_filename_def format_03d_1000)
  have "\<forall>i<length (data \<lparr>data = replicate 1001 doc0\<rparr>).
               files (snd ?run) (page_filename ''out'' i) =
                 Some (or_else (markdown (data \<lparr>data = replicate 1001 doc0\<rparr> ! i)) [])"
    using crawl_into_directory [of env_key "ext_crawl_many 1001"
        "[''crawl'', ''https://example.com'', ''--limit'', ''2000'', ''-o'', ''out'']"
        "''https://example.com''" 2000 "''out''" "\<lparr>data = replicate 1001 doc0\<rparr>" world0]
    by (simp add: env_key_def ext_crawl_many_def ext0_def world0_def parents_def)
  then have "files (snd ?run) (page_filename ''out'' 1000) =
                 Some (or_else (markdown (replicate 1001 doc0 ! 1000)) [])"
    by simp
  then have "files (snd ?run) ''out/page_1000.md'' = Some []"
    by (simp add: name doc0_def or_else_def)
  then show ?thesis
    by (simp add: name format_03d_1000)
qed

text \<open>
  Two runs that fail. When the output path is a regular file, creating the directory
  raises \<^verbatim>\<open>FileExistsError\<close> and nothing is written or printed. When the second page
  cannot be opened, the run ends with that error after the first page was written, and
  prints nothing.
\<close>

lemma crawl_output_is_a_regular_file:
  "main (ext_crawl3 (Some ''out'')) env_key [''crawl'', ''https://example.com'', ''-o'', ''out'']
     (world0\<lparr>files := [''out'' \<mapsto> ''text'']\<rparr>) =
     (Inl FileExistsError,
      \<lparr>stdout = [], stderr = [], files = [''out'' \<mapsto> ''text''], dirs = {},
       calls = [ClientCall ''crawl'' [PStr ''https://example.com'']
                 [(''limit'', PInt 50),
                  (''scrape_options'',
                   PDict [(''formats'', PList [PStr ''markdown'']),
                          (''onlyMainContent'', PBool True)])]]\<rparr>)"
  by (simp add: main_def crawl_docs_def Let_def mkdir_parents_exist_ok_def env_key_def
        ext_crawl3_def ext0_def world0_def)

lemma crawl_second_page_refused:
  "main ((ext_crawl3 (Some ''out''))
           \<lparr>open_error := (\<lambda>p. if p = ''out/page_001.md''
                                then Some (Failure ''PermissionError'') else None)\<rparr>)
     env_key [''crawl'', ''https://example.com'', ''-o'', ''out''] world0 =
     (Inl (Failure ''PermissionError''),
      \<lparr>stdout = [], stderr = [], files = [''out/page_000.md'' \<mapsto> ''A''], dirs = {''out''},
       calls = [ClientCall ''crawl'' [PStr ''https://example.com'']
                 [(''limit'', PInt 50),
                  (''scrape_options'',
                   PDict [(''formats'', PList [PStr ''markdown'']),
                          (''onlyMainContent'', PBool True)])]]\<rparr>)"
  by (simp add: main_def crawl_docs_def Let_def mkdir_parents_exist_ok_def env_key_def
        ext_crawl3_def ext0_def world0_def doc0_def parents_def open_w_def write_w_def
        open_failure_def dirname_def page_filename_def format_03d_0 format_03d_1 or_else_def)

subsection \<open>Search\<close>

lemma print_results_stdout:
  "print_results rs w =
     w\<lparr>stdout := stdout w @ concat (map (\<lambda>r.
          ''## '' @ py_str (r_title r) @ [nl] @
          ''URL: '' @ py_str (r_url r) @ [nl] @
          (case r_description r of
             None \<Rightarrow> ''No description''
           | Some d \<Rightarrow> if d = [] then ''No description'' else d) @ [nl] @
          [nl] @ ''---'' @ [nl] @ [nl]) rs)\<rparr>"
proof (induction rs arbitrary: w)
  case Nil
  show ?case by simp
next
  case (Cons r rs)
  show ?case
    by (simp add: Cons.IH print_result_def print_def or_else_def split: option.splits)
qed

text \<open>
  C7. A \<^verbatim>\<open>search\<close> run whose call to the client succeeds ends normally and adds to
  standard output one block for each result, in the order of the response: the line
  \<^verbatim>\<open>## <title>\<close>, the line \<^verbatim>\<open>URL: <url>\<close>, a line with the description, which is
  the text \<^verbatim>\<open>No description\<close> when the description is missing (or empty), and the
  separator, a line \<^verbatim>\<open>---\<close> with an empty line before and after it. A response with
  no results, or with no list of results at all, adds nothing.
\<close>

theorem search_prints_results_in_order:
  assumes "truthy (env ''FIRECRAWL_API_KEY'')"
    and "parse_args ext argv = Parsed (Search query limit)"
    and "search ext [PStr query] [(''limit'', PInt limit)] = Inr results"
  shows "main ext env argv w =
     (Inr (),
      w\<lparr>calls := calls w @ [ClientCall ''search'' [PStr query] [(''limit'', PInt limit)]],
        stdout := stdout w @ concat (map (\<lambda>r.
          ''## '' @ py_str (r_title r) @ [nl] @
          ''URL: '' @ py_str (r_url r) @ [nl] @
          (case r_description r of
             None \<Rightarrow> ''No description''
           | Some d \<Rightarrow> if d = [] then ''No description'' else d) @ [nl] @
          [nl] @ ''---'' @ [nl] @ [nl])
          (case web results of None \<Rightarrow> [] | Some rs \<Rightarrow> rs))\<rparr>)"
proof -
  have l: "(case web results of None \<Rightarrow> [] | Some rs \<Rightarrow> if rs \<noteq> [] then rs else [])
           = (case web results of None \<Rightarrow> [] | Some rs \<Rightarrow> rs)"
    by (simp split: option.splits)
  show ?thesis
    using assms
    by (simp add: main_def search_web_def Let_def l print_results_stdout)
qed

theorem search_prints_results_in_order_witness:
  "main (ext0\<lparr>search := (\<lambda>pos kw. Inr \<lparr>web = Some
                 [\<lparr>r_title = Some ''One'', r_url = Some ''https://one.example'',
                   r_description = None\<rparr>,
                  \<lparr>r_title = Some ''Two'', r_url = Some ''https://two.example'',
                   r_description = Some ''Second''\<rparr>]\<rparr>),
              parse_args := (\<lambda>argv. Parsed (Search ''q'' 5))\<rparr>)
        env_key [''search'', ''q''] world0 =
     (Inr (),
      \<lparr>stdout = ''## One'' @ [nl] @ ''URL: https://one.example'' @ [nl] @ ''No description'' @ [nl]
                 @ [nl] @ ''---'' @ [nl] @ [nl]
                 @ ''## Two'' @ [nl] @ ''URL: https://two.example'' @ [nl] @ ''Second'' @ [nl]
                 @ [nl] @ ''---'' @ [nl] @ [nl],
       stderr = [], files = Map.empty, dirs = {},
       calls = [ClientCall ''search'' [PStr ''q''] [(''limit'', PInt 5)]]\<rparr>)
   \<and> main (ext0\<lparr>search := (\<lambda>pos kw. Inr \<lparr>web = Some []\<rparr>),
              parse_args := (\<lambda>argv. Parsed (Search ''q'' 5))\<rparr>)
        env_key [''search'', ''q''] world0 =
     (Inr (),
      \<lparr>stdout = [], stderr = [], files = Map.empty, dirs = {},
       calls = [ClientCall ''search'' [PStr ''q''] [(''limit'', PInt 5)]]\<rparr>)"
  using search_prints_results_in_order [of env_key
      "ext0\<lparr>search := (\<lambda>pos kw. Inr \<lparr>web = Some
                 [\<lparr>r_title = Some ''One'', r_url = Some ''https://one.example'',
                   r_description = None\<rparr>,
                  \<lparr>r_title = Some ''Two'', r_url = Some ''https://two.example'',
                   r_description = Some ''Second''\<rparr>]\<rparr>),
              parse_args := (\<lambda>argv. Parsed (Search ''q'' 5))\<rparr>"
      "[''search'', ''q'']" "''q''" 5
      "\<lparr>web = Some
                 [\<lparr>r_title = Some ''One'', r_url = Some ''https://one.example'',
                   r_description = None\<rparr>,
                  \<lparr>r_title = Some ''Two'', r_url = Some ''https://two.example'',
                   r_description = Some ''Second''\<rparr>]\<rparr>" world0]
    search_prints_results_in_order [of env_key
      "ext0\<lparr>search := (\<lambda>pos kw. Inr \<lparr>web = Some []\<rparr>),
              parse_args := (\<lambda>argv. Parsed (Search ''q'' 5))\<rparr>"
      "[''search'', ''q'']" "''q''" 5 "\<lparr>web = Some []\<rparr>" world0]
  by (simp add: env_key_def world0_def ext0_def)

text \<open>
  C10. When the response of the client has no list of web results (\<^verbatim>\<open>None\<close>),
  \<^verbatim>\<open>search_web\<close> returns the empty list, and the run ends normally after the one call,
  having printed nothing: the loop over the results has nothing to read.
\<close>

theorem search_web_never_none:
  assumes "truthy (env ''FIRECRAWL_API_KEY'')"
    and "parse_args ext argv = Parsed (Search query limit)"
    and "search ext [PStr query] [(''limit'', PInt limit)] = Inr results"
    and "web results = None"
  shows "fst (search_web ext query limit w) = Inr []
         \<and> main ext env argv w =
             (Inr (), w\<lparr>calls := calls w @ [ClientCall ''search'' [PStr query]
                                              [(''limit'', PInt limit)]]\<rparr>)"
  using assms by (simp add: main_def search_web_def Let_def)

theorem search_web_never_none_witness:
  "fst (search_web (ext0\<lparr>search := (\<lambda>pos kw. Inr \<lparr>web = None\<rparr>),
                         parse_args := (\<lambda>argv. Parsed (Search ''q'' 5))\<rparr>) ''q'' 5 world0) = Inr []
   \<and> main (ext0\<lparr>search := (\<lambda>pos kw. Inr \<lparr>web = None\<rparr>),
                parse_args := (\<lambda>argv. Parsed (Search ''q'' 5))\<rparr>)
        env_key [''search'', ''q''] world0 =
     (Inr (),
      \<lparr>stdout = [], stderr = [], files = Map.empty, dirs = {},
       calls = [ClientCall ''search'' [PStr ''q''] [(''limit'', PInt 5)]]\<rparr>)"
  using search_web_never_none [of env_key
      "ext0\<lparr>search := (\<lambda>pos kw. Inr \<lparr>web = None\<rparr>),
              parse_args := (\<lambda>argv. Parsed (Search ''q'' 5))\<rparr>"
      "[''search'', ''q'']" "''q''" 5 "\<lparr>web = None\<rparr>" world0]
  by (simp add: env_key_def world0_def ext0_def)

subsection \<open>Extract\<close>

text \<open>
  C8. An \<^verbatim>\<open>extract\<close> run whose schema file does not exist, or holds a text that
  \<^verbatim>\<open>json.load\<close> rejects, ends with that error, uncaught. The world is as before: no
  call to the client has been made and nothing has been printed.
\<close>

theorem extract_bad_schema_fails_before_call:
  assumes "truthy (env ''FIRECRAWL_API_KEY'')"
    and "parse_args ext argv = Parsed (Extract url schema_path prompt)"
    and "files w schema_path = None
         \<or> (\<exists>text e. files w schema_path = Some text \<and> json_load ext text = Inl e)"
  shows "(\<exists>e. fst (main ext env argv w) = Inl e)
         \<and> snd (main ext env argv w) = w
         \<and> calls (snd (main ext env argv w)) = calls w"
  using assms by (auto simp: main_def)

theorem extract_bad_schema_fails_before_call_witness:
  "(\<exists>e. fst (main (ext0\<lparr>parse_args := (\<lambda>argv. Parsed (Extract ''https://example.com'' ''schema.json'' None))\<rparr>)
              env_key [''extract'', ''https://example.com'', ''--schema'', ''schema.json'']
              world0) = Inl e)
   \<and> calls (snd (main (ext0\<lparr>parse_args := (\<lambda>argv. Parsed (Extract ''https://example.com'' ''schema.json'' None))\<rparr>)
              env_key [''extract'', ''https://example.com'', ''--schema'', ''schema.json'']
              world0)) = []
   \<and> (\<exists>e. fst (main (ext0\<lparr>parse_args := (\<lambda>argv. Parsed (Extract ''https://example.com'' ''schema.json'' None))\<rparr>)
              env_key [''extract'', ''https://example.com'', ''--schema'', ''schema.json'']
              (world0\<lparr>files := [''schema.json'' \<mapsto> ''{not json'']\<rparr>)) = Inl e)
   \<and> calls (snd (main (ext0\<lparr>parse_args := (\<lambda>argv. Parsed (Extract ''https://example.com'' ''schema.json'' None))\<rparr>)
              env_key [''extract'', ''https://example.com'', ''--schema'', ''schema.json'']
              (world0\<lparr>files := [''schema.json'' \<mapsto> ''{not json'']\<rparr>))) = []"
  using extract_bad_schema_fails_before_call [of env_key
      "ext0\<lparr>parse_args := (\<lambda>argv. Parsed (Extract ''https://example.com'' ''schema.json'' None))\<rparr>"
      "[''extract'', ''https://example.com'', ''--schema'', ''schema.json'']"
      "''https://example.com''" "''schema.json''" None world0]
    extract_bad_schema_fails_before_call [of env_key
      "ext0\<lparr>parse_args := (\<lambda>argv. Parsed (Extract ''https://example.com'' ''schema.json'' None))\<rparr>"
      "[''extract'', ''https://example.com'', ''--schema'', ''schema.json'']"
      "''https://example.com''" "''schema.json''" None
      "world0\<lparr>files := [''schema.json'' \<mapsto> ''{not json'']\<rparr>"]
  by (simp add: env_key_def world0_def ext0_def)

subsection \<open>Crawl onto standard output\<close>

lemma print_pages_stdout:
  "print_pages pages w =
     w\<lparr>stdout := stdout w @ concat (map (\<lambda>page.
          ''## '' @ (case metadata page of
                       None \<Rightarrow> ''Untitled''
                     | Some m \<Rightarrow> py_str (title m)) @ [nl] @
          (case markdown page of None \<Rightarrow> [] | Some m \<Rightarrow> take 1000 m) @ [nl] @
          [nl] @ ''---'' @ [nl] @ [nl]) pages)\<rparr>"
proof (induction pages arbitrary: w)
  case Nil
  show ?case by simp
next
  case (Cons page pages)
  show ?case
    by (simp add: Cons.IH print_page_def page_title_def print_def split: option.splits)
qed

text \<open>
  C2. A \<^verbatim>\<open>crawl\<close> run without an output directory prints, for each page, a heading,
  the first 1000 characters of the markdown (an empty line when there is none) and
  the separator. The heading is \<^verbatim>\<open>## Untitled\<close> when the page has no metadata. When
  the page has metadata whose title is missing, the script formats the missing title
  itself and the heading is \<^verbatim>\<open>## None\<close>: the two runs below differ only in that.
\<close>

theorem crawl_missing_title_prints_None:
  "stdout (snd (main
       (ext0\<lparr>crawl := (\<lambda>pos kw. Inr \<lparr>data = [doc0\<lparr>markdown := Some ''Body''\<rparr>]\<rparr>),
             parse_args := (\<lambda>argv. Parsed (Crawl ''https://example.com'' 50 None))\<rparr>)
       env_key [''crawl'', ''https://example.com''] world0))
     = ''## Untitled'' @ [nl] @ ''Body'' @ [nl] @ [nl] @ ''---'' @ [nl] @ [nl]
   \<and> stdout (snd (main
       (ext0\<lparr>crawl := (\<lambda>pos kw. Inr \<lparr>data = [doc0\<lparr>markdown := Some ''Body'',
                                                    metadata := Some \<lparr>title = None\<rparr>\<rparr>]\<rparr>),
             parse_args := (\<lambda>argv. Parsed (Crawl ''https://example.com'' 50 None))\<rparr>)
       env_key [''crawl'', ''https://example.com''] world0))
     = ''## None'' @ [nl] @ ''Body'' @ [nl] @ [nl] @ ''---'' @ [nl] @ [nl]"
  by (simp add: main_def env_key_def world0_def ext0_def doc0_def crawl_docs_def Let_def
        print_page_def page_title_def print_def)

end
